theory Spec2Isabelle
  imports Main "HOL-Library.List_Lexorder" "HOL-Library.Char_ord"
begin

section \<open>Values, errors and the outside world\<close>

text \<open>
  The program is \<^verbatim>\<open>cli.py\<close>: two scrapers (HTML listing pages, local PDF files) built on
  one generator \<^verbatim>\<open>BaseScraper.run\<close>, and three commands that print every yielded record
  as one JSON line.

  An exception is a value of type \<open>error\<close>. The constructors name where it comes from:
  \<^verbatim>\<open>requests.get\<close> / \<^verbatim>\<open>raise_for_status\<close>, the CSS selector engine behind
  \<^verbatim>\<open>soup.select\<close>, \<^verbatim>\<open>open\<close> / \<^verbatim>\<open>os.listdir\<close>, and pdfminer's
  \<^verbatim>\<open>extract_text\<close>. The code has no \<^verbatim>\<open>try\<close>, so every one of them propagates.
\<close>

datatype error =
    RequestException string
  | SelectorSyntaxError string
  | OSError string
  | PDFSyntaxError string

text \<open>The values stored in a record: \<^verbatim>\<open>None\<close> or a \<^verbatim>\<open>str\<close>.\<close>

datatype json = JNull | JString string

text \<open>
  A record is a Python dict literal: its keys in insertion order, which is the order
  \<^verbatim>\<open>json.dumps\<close> writes them in.
\<close>

type_synonym py_dict = "(string \<times> json) list"

text \<open>
  Everything the program calls but does not define is a field of the world: the network,
  the HTML library (BeautifulSoup over \<^verbatim>\<open>html.parser\<close>, with its parsed documents
  \<open>'soup\<close> and elements \<open>'tag\<close>), \<^verbatim>\<open>urljoin\<close>, the file system, pdfminer and the
  random source of \<^verbatim>\<open>uuid.uuid4\<close>.

  \<^item> \<open>requests_get url\<close> is \<^verbatim>\<open>resp = requests.get(url); resp.raise_for_status(); resp.text\<close>;
  \<^item> \<open>BeautifulSoup html\<close> is \<^verbatim>\<open>BeautifulSoup(html, "html.parser")\<close>;
  \<^item> \<open>soup_select soup sel\<close> is \<^verbatim>\<open>soup.select(sel)\<close> and \<open>soup_select_one soup sel\<close> is
    \<^verbatim>\<open>soup.select_one(sel)\<close>, for a selector the engine accepts;
  \<^item> \<open>selector_error sel\<close> is the exception the selector engine raises on \<open>sel\<close>
    before it selects anything, if it cannot parse it;
  \<^item> \<open>soup_find soup name\<close> is \<^verbatim>\<open>soup.find(name)\<close>;
  \<^item> \<open>tag_get t key\<close> is \<^verbatim>\<open>t.get(key)\<close>; \<^verbatim>\<open>t.has_attr(key)\<close> is \<open>tag_get t key \<noteq> None\<close>
    and \<^verbatim>\<open>t[key]\<close> is its value;
  \<^item> \<open>get_text_strip t\<close> is \<^verbatim>\<open>t.get_text(strip=True)\<close>;
  \<^item> \<open>urljoin base url\<close> is \<^verbatim>\<open>requests.compat.urljoin(base, url)\<close>;
  \<^item> \<open>open_rb path\<close> is \<^verbatim>\<open>open(path, "rb").read()\<close>;
  \<^item> \<open>extract_text path\<close> is pdfminer's \<^verbatim>\<open>extract_text(path)\<close>;
  \<^item> \<open>uuid4 k\<close> is the string of the \<open>k\<close>-th \<^verbatim>\<open>uuid.uuid4()\<close> drawn by the process;
  \<^item> \<open>isdir\<close> and \<open>listdir\<close> are \<^verbatim>\<open>os.path.isdir\<close> and \<^verbatim>\<open>os.listdir\<close>.
\<close>

record ('soup, 'tag) world =
  requests_get :: "string \<Rightarrow> error + string"
  BeautifulSoup :: "string \<Rightarrow> 'soup"
  soup_select :: "'soup \<Rightarrow> string \<Rightarrow> 'tag list"
  soup_select_one :: "'soup \<Rightarrow> string \<Rightarrow> 'tag option"
  selector_error :: "string \<Rightarrow> error option"
  soup_find :: "'soup \<Rightarrow> string \<Rightarrow> 'tag option"
  tag_get :: "'tag \<Rightarrow> string \<Rightarrow> string option"
  get_text_strip :: "'tag \<Rightarrow> string"
  urljoin :: "string \<Rightarrow> string \<Rightarrow> string"
  open_rb :: "string \<Rightarrow> error + string"
  extract_text :: "string \<Rightarrow> error + string"
  uuid4 :: "nat \<Rightarrow> string"
  isdir :: "string \<Rightarrow> bool"
  listdir :: "string \<Rightarrow> error + string list"

section \<open>Python string operations\<close>

text \<open>\<^verbatim>\<open>s.startswith(p)\<close> and \<^verbatim>\<open>s.endswith(p)\<close>.\<close>

fun startswith :: "string \<Rightarrow> string \<Rightarrow> bool" where
  "startswith s [] = True"
| "startswith [] (p # ps) = False"
| "startswith (c # cs) (p # ps) = (c = p \<and> startswith cs ps)"

definition endswith :: "string \<Rightarrow> string \<Rightarrow> bool" where
  "endswith s p = startswith (rev s) (rev p)"

text \<open>\<^verbatim>\<open>sep.join(xs)\<close>.\<close>

fun join :: "string \<Rightarrow> string list \<Rightarrow> string" where
  "join sep [] = []"
| "join sep [x] = x"
| "join sep (x # y # ys) = x @ sep @ join sep (y # ys)"

text \<open>
  \<^verbatim>\<open>s.lower()\<close> on the ASCII letters. The program only asks whether the lowered name ends
  with \<^verbatim>\<open>.pdf\<close>, four ASCII characters.
\<close>

definition lower_char :: "char \<Rightarrow> char" where
  "lower_char c =
     (if CHR ''A'' \<le> c \<and> c \<le> CHR ''Z'' then char_of (of_char c + (32::nat)) else c)"

definition lower :: "string \<Rightarrow> string" where
  "lower s = map lower_char s"

text \<open>\<^verbatim>\<open>os.path.basename(p)\<close>: what follows the last slash.\<close>

definition basename :: "string \<Rightarrow> string" where
  "basename p = rev (takeWhile (\<lambda>c. c \<noteq> CHR ''/'') (rev p))"

text \<open>\<^verbatim>\<open>os.path.join(a, b)\<close> for two components.\<close>

definition path_join :: "string \<Rightarrow> string \<Rightarrow> string" where
  "path_join a b =
     (if startswith b ''/'' then b
      else if a = [] \<or> endswith a ''/'' then a @ b
      else a @ ''/'' @ b)"

section \<open>\<^verbatim>\<open>json.dumps(rec, ensure_ascii=False)\<close>\<close>

definition hex_digit :: "nat \<Rightarrow> char" where
  "hex_digit n = ''0123456789abcdef'' ! (n mod 16)"

text \<open>
  The encoder's escapes: backslash, double quote, the five named control characters, and
  \<^verbatim>\<open>\u00XX\<close> for the other characters below \<^verbatim>\<open>0x20\<close>.
\<close>

definition escape_char :: "char \<Rightarrow> string" where
  "escape_char c =
     (if c = CHR 0x5C then [CHR 0x5C, CHR 0x5C]
      else if c = CHR 0x22 then [CHR 0x5C, CHR 0x22]
      else if c = CHR 0x08 then [CHR 0x5C, CHR ''b'']
      else if c = CHR 0x0C then [CHR 0x5C, CHR ''f'']
      else if c = CHR 0x0A then [CHR 0x5C, CHR ''n'']
      else if c = CHR 0x0D then [CHR 0x5C, CHR ''r'']
      else if c = CHR 0x09 then [CHR 0x5C, CHR ''t'']
      else if (of_char c :: nat) < 32
        then [CHR 0x5C, CHR ''u'', CHR ''0'', CHR ''0'',
              hex_digit (of_char c div 16), hex_digit (of_char c)]
      else [c])"

definition encode_basestring :: "string \<Rightarrow> string" where
  "encode_basestring s = [CHR 0x22] @ concat (map escape_char s) @ [CHR 0x22]"

fun encode_json :: "json \<Rightarrow> string" where
  "encode_json JNull = ''null''"
| "encode_json (JString s) = encode_basestring s"

definition encode_item :: "string \<times> json \<Rightarrow> string" where
  "encode_item kv = encode_basestring (fst kv) @ '': '' @ encode_json (snd kv)"

definition json_dumps :: "py_dict \<Rightarrow> string" where
  "json_dumps d = ''{'' @ join '', '' (map encode_item d) @ ''}''"

section \<open>\<^verbatim>\<open>BaseScraper.run\<close>\<close>

text \<open>
  A scraper is an object with the four methods \<^verbatim>\<open>run\<close> calls. \<^verbatim>\<open>extract_content\<close>
  draws a fresh uuid, so it takes the number of uuids drawn so far and returns the new
  number with the record.
\<close>

record ('page, 'content, 'item) scraper =
  list_pages :: "'page list"
  fetch_page :: "'page \<Rightarrow> error + 'content"
  parse_items :: "'content \<Rightarrow> error + 'item list"
  extract_content :: "'item \<Rightarrow> nat \<Rightarrow> error + py_dict \<times> nat"

text \<open>
  \<^verbatim>\<open>run\<close> is a generator and its callers print each record as soon as it is yielded. Its
  value here is what a caller that drains it observes: the records yielded, in order; the
  exception that ended it (\<open>None\<close> when it ran to its end); the number of uuids drawn.

  The inner loop, \<^verbatim>\<open>for item in self.parse_items(content): yield self.extract_content(item)\<close>:
\<close>

fun run_items ::
  "('item \<Rightarrow> nat \<Rightarrow> error + py_dict \<times> nat) \<Rightarrow> 'item list \<Rightarrow> nat
     \<Rightarrow> py_dict list \<times> error option \<times> nat" where
  "run_items ex [] n = ([], None, n)"
| "run_items ex (item # items) n =
     (case ex item n of
        Inl e \<Rightarrow> ([], Some e, n)
      | Inr (r, n') \<Rightarrow>
          (case run_items ex items n' of (rs, e, n'') \<Rightarrow> (r # rs, e, n'')))"

text \<open>The outer loop, \<^verbatim>\<open>for page in self.list_pages(): content = self.fetch_page(page); ...\<close>:\<close>

fun run_pages ::
  "('page, 'content, 'item) scraper \<Rightarrow> 'page list \<Rightarrow> nat
     \<Rightarrow> py_dict list \<times> error option \<times> nat" where
  "run_pages sc [] n = ([], None, n)"
| "run_pages sc (page # pages) n =
     (case fetch_page sc page of
        Inl e \<Rightarrow> ([], Some e, n)
      | Inr content \<Rightarrow>
          (case parse_items sc content of
             Inl e \<Rightarrow> ([], Some e, n)
           | Inr items \<Rightarrow>
               (case run_items (extract_content sc) items n of
                  (rs, Some e, n') \<Rightarrow> (rs, Some e, n')
                | (rs, None, n') \<Rightarrow>
                    (case run_pages sc pages n' of (rs', e, n'') \<Rightarrow> (rs @ rs', e, n'')))))"

definition run ::
  "('page, 'content, 'item) scraper \<Rightarrow> nat \<Rightarrow> py_dict list \<times> error option \<times> nat" where
  "run sc n = run_pages sc (list_pages sc) n"

section \<open>\<^verbatim>\<open>HtmlScraper\<close>\<close>

record HtmlScraper =
  start_url :: string
  list_selector :: string
  link_selector :: string

definition html_list_pages :: "HtmlScraper \<Rightarrow> string list" where
  "html_list_pages self = [start_url self]"

definition html_fetch_page :: "('soup, 'tag) world \<Rightarrow> string \<Rightarrow> error + string" where
  "html_fetch_page w url = requests_get w url"

text \<open>
  The loop of \<^verbatim>\<open>parse_items\<close> over the selected elements, with \<open>items\<close> the list built so
  far. \<^verbatim>\<open>if href:\<close> is false for \<^verbatim>\<open>None\<close> and for the empty string.
\<close>

fun parse_items_loop ::
  "('soup, 'tag) world \<Rightarrow> HtmlScraper \<Rightarrow> 'tag list \<Rightarrow> string list \<Rightarrow> string list" where
  "parse_items_loop w self [] items = items"
| "parse_items_loop w self (a # as) items =
     (case tag_get w a ''href'' of
        None \<Rightarrow> parse_items_loop w self as items
      | Some href \<Rightarrow>
          (if href = [] then parse_items_loop w self as items
           else parse_items_loop w self as
                  (items @ [if startswith href ''http'' then href
                            else urljoin w (start_url self) href])))"

text \<open>
  The selector of \<^verbatim>\<open>parse_items\<close> is made of the two selectors the scraper was built with,
  which come from the command line or the catalog: the engine may reject it.
\<close>

definition html_parse_items ::
  "('soup, 'tag) world \<Rightarrow> HtmlScraper \<Rightarrow> string \<Rightarrow> error + string list" where
  "html_parse_items w self page_content =
     (let soup = BeautifulSoup w page_content;
          selector = list_selector self @ '' '' @ link_selector self
      in case selector_error w selector of
           Some e \<Rightarrow> Inl e
         | None \<Rightarrow> Inr (parse_items_loop w self (soup_select w soup selector) []))"

text \<open>
  The two selectors of \<^verbatim>\<open>extract_content\<close> are constants of the program and well-formed,
  so only the fetch can raise.
\<close>

definition html_extract_content ::
  "('soup, 'tag) world \<Rightarrow> HtmlScraper \<Rightarrow> string \<Rightarrow> nat \<Rightarrow> error + py_dict \<times> nat" where
  "html_extract_content w self item_url n =
     (case html_fetch_page w item_url of
        Inl e \<Rightarrow> Inl e
      | Inr html \<Rightarrow>
          (let soup = BeautifulSoup w html;
               title = (case soup_find w soup ''h1'' of
                          Some h \<Rightarrow> JString (get_text_strip w h)
                        | None \<Rightarrow> JNull);
               date = (case soup_find w soup ''time'' of
                         None \<Rightarrow> JNull
                       | Some time_tag \<Rightarrow>
                           (case tag_get w time_tag ''datetime'' of
                              None \<Rightarrow> JNull
                            | Some d \<Rightarrow> JString d));
               author = (case soup_select_one w soup ''.author'' of
                           Some t \<Rightarrow> JString (get_text_strip w t)
                         | None \<Rightarrow> JNull);
               paragraphs = map (get_text_strip w)
                              (soup_select w soup ''article p, .post-content p, .content p'');
               content = join [CHR 0x0A, CHR 0x0A] paragraphs
           in Inr ([(''id'', JString (uuid4 w n)),
                    (''source'', JString (start_url self)),
                    (''url'', JString item_url),
                    (''title'', title),
                    (''author'', author),
                    (''date'', date),
                    (''content'', JString content)], Suc n)))"

definition html_scraper ::
  "('soup, 'tag) world \<Rightarrow> HtmlScraper \<Rightarrow> (string, string, string) scraper" where
  "html_scraper w self =
     \<lparr>list_pages = html_list_pages self,
      fetch_page = html_fetch_page w,
      parse_items = html_parse_items w self,
      extract_content = html_extract_content w self\<rparr>"

section \<open>\<^verbatim>\<open>PDFScraper\<close>\<close>

record PDFScraper =
  pdf_path :: string

definition pdf_list_pages :: "PDFScraper \<Rightarrow> string list" where
  "pdf_list_pages self = [pdf_path self]"

definition pdf_fetch_page :: "('soup, 'tag) world \<Rightarrow> string \<Rightarrow> error + string" where
  "pdf_fetch_page w path = open_rb w path"

definition pdf_parse_items :: "PDFScraper \<Rightarrow> string \<Rightarrow> error + string list" where
  "pdf_parse_items self page_content = Inr [pdf_path self]"

definition pdf_extract_content ::
  "('soup, 'tag) world \<Rightarrow> string \<Rightarrow> nat \<Rightarrow> error + py_dict \<times> nat" where
  "pdf_extract_content w item n =
     (case extract_text w item of
        Inl e \<Rightarrow> Inl e
      | Inr text \<Rightarrow>
          Inr ([(''id'', JString (uuid4 w n)),
                (''source'', JString (basename item)),
                (''content'', JString text)], Suc n))"

definition pdf_scraper ::
  "('soup, 'tag) world \<Rightarrow> PDFScraper \<Rightarrow> (string, string, string) scraper" where
  "pdf_scraper w self =
     \<lparr>list_pages = pdf_list_pages self,
      fetch_page = pdf_fetch_page w,
      parse_items = pdf_parse_items self,
      extract_content = pdf_extract_content w\<rparr>"

section \<open>The commands\<close>

text \<open>
  Standard output is the list of the lines \<^verbatim>\<open>typer.echo\<close> wrote. A command returns it
  with the exception that ended the command, if any, and the number of uuids drawn.
\<close>

definition echo_records ::
  "py_dict list \<times> error option \<times> nat \<Rightarrow> string list \<times> error option \<times> nat" where
  "echo_records res = (case res of (recs, e, n) \<Rightarrow> (map json_dumps recs, e, n))"

definition scrape_html ::
  "('soup, 'tag) world \<Rightarrow> string \<Rightarrow> string \<Rightarrow> string \<Rightarrow> nat
     \<Rightarrow> string list \<times> error option \<times> nat" where
  "scrape_html w url list_sel link_sel n =
     echo_records
       (run (html_scraper w
               \<lparr>start_url = url, list_selector = list_sel, link_selector = link_sel\<rparr>) n)"

definition scrape_pdf ::
  "('soup, 'tag) world \<Rightarrow> string \<Rightarrow> nat \<Rightarrow> string list \<times> error option \<times> nat" where
  "scrape_pdf w path n = echo_records (run (pdf_scraper w \<lparr>pdf_path = path\<rparr>) n)"

text \<open>The entries of \<^verbatim>\<open>PREDEFINED_SOURCES\<close>, and the constants.\<close>

record source =
  src_name :: string
  src_type :: string
  src_start_url :: string
  src_list_sel :: string
  src_link_sel :: string

definition PREDEFINED_SOURCES :: "source list" where
  "PREDEFINED_SOURCES =
     [\<lparr>src_name = ''interviewing_blog'', src_type = ''html'',
       src_start_url = ''https://interviewing.io/blog'',
       src_list_sel = ''h1'', src_link_sel = ''a''\<rparr>,
      \<lparr>src_name = ''company_guides'', src_type = ''html'',
       src_start_url = ''https://interviewing.io/topics#companies'',
       src_list_sel = ''.markdown-content'',
       src_link_sel = ''a[href*='' @ [CHR 0x27] @ ''/topics/'' @ [CHR 0x27] @ '']''\<rparr>,
      \<lparr>src_name = ''interview_guides'', src_type = ''html'',
       src_start_url = ''https://interviewing.io/learn#interview-guides'',
       src_list_sel = ''.markdown-content'',
       src_link_sel = ''a[href*='' @ [CHR 0x27] @ ''/learn/'' @ [CHR 0x27] @ '']''\<rparr>,
      \<lparr>src_name = ''nil_dsablog'', src_type = ''html'',
       src_start_url = ''https://nilmamano.com/blog/category/dsa'',
       src_list_sel = ''article'', src_link_sel = ''a''\<rparr>]"

definition PDF_FOLDER :: string where
  "PDF_FOLDER = ''data/pdfs''"

text \<open>The first loop of \<^verbatim>\<open>scrape_all\<close>, over the HTML sources.\<close>

definition html_marker :: "source \<Rightarrow> string" where
  "html_marker src = ''--- SCRAPING '' @ src_name src @ '' ('' @ src_start_url src @ '') ---''"

fun scrape_sources ::
  "('soup, 'tag) world \<Rightarrow> source list \<Rightarrow> nat \<Rightarrow> string list \<times> error option \<times> nat" where
  "scrape_sources w [] n = ([], None, n)"
| "scrape_sources w (src # srcs) n =
     (case echo_records
             (run (html_scraper w
                     \<lparr>start_url = src_start_url src, list_selector = src_list_sel src,
                      link_selector = src_link_sel src\<rparr>) n) of
        (out, Some e, n') \<Rightarrow> (html_marker src # out, Some e, n')
      | (out, None, n') \<Rightarrow>
          (case scrape_sources w srcs n' of
             (out', e, n'') \<Rightarrow> (html_marker src # out @ out', e, n'')))"

text \<open>
  The second loop, over the sorted names of the PDF folder. \<^verbatim>\<open>sorted\<close> compares strings
  character by character, as the lexicographic order on \<open>string\<close> does.
\<close>

definition pdf_marker :: "string \<Rightarrow> string" where
  "pdf_marker fname = ''--- SCRAPING PDF '' @ fname @ '' ---''"

fun scrape_pdfs ::
  "('soup, 'tag) world \<Rightarrow> string list \<Rightarrow> nat \<Rightarrow> string list \<times> error option \<times> nat" where
  "scrape_pdfs w [] n = ([], None, n)"
| "scrape_pdfs w (fname # fnames) n =
     (if endswith (lower fname) ''.pdf'' then
        (case echo_records (run (pdf_scraper w \<lparr>pdf_path = path_join PDF_FOLDER fname\<rparr>) n) of
           (out, Some e, n') \<Rightarrow> (pdf_marker fname # out, Some e, n')
         | (out, None, n') \<Rightarrow>
             (case scrape_pdfs w fnames n' of
                (out', e, n'') \<Rightarrow> (pdf_marker fname # out @ out', e, n'')))
      else scrape_pdfs w fnames n)"

definition scrape_pdf_folder ::
  "('soup, 'tag) world \<Rightarrow> nat \<Rightarrow> string list \<times> error option \<times> nat" where
  "scrape_pdf_folder w n =
     (if isdir w PDF_FOLDER then
        (case listdir w PDF_FOLDER of
           Inl e \<Rightarrow> ([], Some e, n)
         | Inr fnames \<Rightarrow> scrape_pdfs w (sort fnames) n)
      else ([''PDF folder not found: '' @ PDF_FOLDER], None, n))"

definition scrape_all ::
  "('soup, 'tag) world \<Rightarrow> nat \<Rightarrow> string list \<times> error option \<times> nat" where
  "scrape_all w n =
     (case scrape_sources w PREDEFINED_SOURCES n of
        (out, Some e, n') \<Rightarrow> (out, Some e, n')
      | (out, None, n') \<Rightarrow>
          (case scrape_pdf_folder w n' of (out', e, n'') \<Rightarrow> (out @ out', e, n'')))"

section \<open>Notions used to state the properties\<close>

text \<open>
  Whether \<^verbatim>\<open>extract_content\<close> raises on an item, and with what. (Which exception it
  raises does not depend on the number of uuids drawn: lemmas \<open>html_extract_content_shape\<close>
  and \<open>pdf_extract_content_shape\<close>.)
\<close>

definition item_error ::
  "('item \<Rightarrow> nat \<Rightarrow> error + py_dict \<times> nat) \<Rightarrow> 'item \<Rightarrow> error option" where
  "item_error ex item = (case ex item 0 of Inl e \<Rightarrow> Some e | Inr r \<Rightarrow> None)"

text \<open>The \<^verbatim>\<open>id\<close> values of a list of records, and the records without their \<^verbatim>\<open>id\<close>.\<close>

definition ids_of :: "py_dict list \<Rightarrow> json option list" where
  "ids_of rs = map (\<lambda>r. map_of r ''id'') rs"

definition without_ids :: "py_dict list \<Rightarrow> py_dict list" where
  "without_ids rs = map (filter (\<lambda>kv. fst kv \<noteq> ''id'')) rs"

section \<open>A small world to run the program in\<close>

text \<open>
  A world with five pages and a PDF folder, for evaluating the program. A parsed document
  is its markup, an element is its attributes with its stripped text, and the library's
  answers are tabulated for the pages and selectors used.

  \<^item> \<^verbatim>\<open>https://example.org/blog\<close> lists post 1 (relative), post 2 (absolute), post 1 again,
    and an anchor with no \<^verbatim>\<open>href\<close>;
  \<^item> \<^verbatim>\<open>https://example.org/links\<close> lists \<^verbatim>\<open>/gone\<close>, which answers 404, then post 2;
  \<^item> post 1 has a heading, a time marker, an author and two paragraphs; post 2 has one
    paragraph only;
  \<^item> \<^verbatim>\<open>https://nilmamano.com/blog/category/dsa\<close> lists post 2; every other URL is
    unreachable;
  \<^item> \<^verbatim>\<open>data/pdfs\<close> holds \<^verbatim>\<open>b.PDF\<close> (not a PDF inside), \<^verbatim>\<open>notes.txt\<close> and \<^verbatim>\<open>a.pdf\<close>;
  \<^item> the selector engine rejects \<^verbatim>\<open>article[ a\<close> and accepts every other selector.
\<close>

type_synonym demo_tag = "(string \<times> string) list \<times> string"

definition demo_blog :: string where
  "demo_blog = ''<article><a href=/post/1>One</a><a href=https://example.org/post/2>Two</a><a href=/post/1>Again</a><a name=top>Top</a></article>''"

definition demo_links :: string where
  "demo_links = ''<article><a href=/gone>Gone</a><a href=/post/2>Two</a></article>''"

definition demo_dsa :: string where
  "demo_dsa = ''<article><a href=https://example.org/post/2>Two</a></article>''"

definition demo_post1 :: string where
  "demo_post1 = ''<article><h1> First post </h1><time datetime=2024-01-02>Jan 2</time><span class=author>Ann</span><p>Hello</p><p>World</p></article>''"

definition demo_post2 :: string where
  "demo_post2 = ''<article><p>Only text</p></article>''"

definition demo_get :: "string \<Rightarrow> error + string" where
  "demo_get url =
     (if url = ''https://example.org/blog'' then Inr demo_blog
      else if url = ''https://example.org/links'' then Inr demo_links
      else if url = ''https://nilmamano.com/blog/category/dsa'' then Inr demo_dsa
      else if url = ''https://example.org/post/1'' then Inr demo_post1
      else if url = ''https://example.org/post/2'' then Inr demo_post2
      else Inl (RequestException url))"

definition demo_select :: "string \<Rightarrow> string \<Rightarrow> demo_tag list" where
  "demo_select soup sel =
     (if sel = ''article a'' then
        (if soup = demo_blog then
           [([(''href'', ''/post/1'')], ''One''),
            ([(''href'', ''https://example.org/post/2'')], ''Two''),
            ([(''href'', ''/post/1'')], ''Again''),
            ([(''name'', ''top'')], ''Top'')]
         else if soup = demo_links then
           [([(''href'', ''/gone'')], ''Gone''), ([(''href'', ''/post/2'')], ''Two'')]
         else if soup = demo_dsa then
           [([(''href'', ''https://example.org/post/2'')], ''Two'')]
         else [])
      else if sel = ''article p, .post-content p, .content p'' then
        (if soup = demo_post1 then [([], ''Hello''), ([], ''World'')]
         else if soup = demo_post2 then [([], ''Only text'')]
         else [])
      else [])"

definition demo_select_one :: "string \<Rightarrow> string \<Rightarrow> demo_tag option" where
  "demo_select_one soup sel =
     (if sel = ''.author'' \<and> soup = demo_post1 then Some ([(''class'', ''author'')], ''Ann'')
      else None)"

definition demo_selector_error :: "string \<Rightarrow> error option" where
  "demo_selector_error sel =
     (if sel = ''article[ a'' then Some (SelectorSyntaxError sel) else None)"

definition demo_find :: "string \<Rightarrow> string \<Rightarrow> demo_tag option" where
  "demo_find soup name =
     (if soup = demo_post1 \<and> name = ''h1'' then Some ([], ''First post'')
      else if soup = demo_post1 \<and> name = ''time''
        then Some ([(''datetime'', ''2024-01-02'')], ''Jan 2'')
      else None)"

definition demo_urljoin :: "string \<Rightarrow> string \<Rightarrow> string" where
  "demo_urljoin base url =
     (if startswith url ''/'' then ''https://example.org'' @ url else base @ ''/'' @ url)"

definition demo_extract_text :: "string \<Rightarrow> error + string" where
  "demo_extract_text path =
     (if path = ''data/pdfs/a.pdf'' then Inr ''Alpha''
      else Inl (PDFSyntaxError path))"

definition demo_open :: "string \<Rightarrow> error + string" where
  "demo_open path =
     (if path = ''data/pdfs/a.pdf'' then Inr ''%PDF-1.4''
      else if path = ''data/pdfs/b.PDF'' then Inr ''plain text''
      else Inl (OSError path))"

definition demo_uuid4 :: "nat \<Rightarrow> string" where
  "demo_uuid4 k = ''00000000-0000-4000-8000-00000000000'' @ [hex_digit k]"

definition other_uuid4 :: "nat \<Rightarrow> string" where
  "other_uuid4 k = ''ffffffff-ffff-4fff-bfff-fffffffffff'' @ [hex_digit k]"

definition demo_world :: "(string, demo_tag) world" where
  "demo_world =
     \<lparr>requests_get = demo_get,
      BeautifulSoup = (\<lambda>html. html),
      soup_select = demo_select,
      soup_select_one = demo_select_one,
      selector_error = demo_selector_error,
      soup_find = demo_find,
      tag_get = (\<lambda>t key. map_of (fst t) key),
      get_text_strip = snd,
      urljoin = demo_urljoin,
      open_rb = demo_open,
      extract_text = demo_extract_text,
      uuid4 = demo_uuid4,
      isdir = (\<lambda>path. path = ''data/pdfs''),
      listdir = (\<lambda>path. if path = ''data/pdfs''
                         then Inr [''b.PDF'', ''notes.txt'', ''a.pdf'']
                         else Inl (OSError path))\<rparr>"

definition blog_scraper :: HtmlScraper where
  "blog_scraper =
     \<lparr>start_url = ''https://example.org/blog'', list_selector = ''article'',
      link_selector = ''a''\<rparr>"

definition links_scraper :: HtmlScraper where
  "links_scraper =
     \<lparr>start_url = ''https://example.org/links'', list_selector = ''article'',
      link_selector = ''a''\<rparr>"



section \<open>What \<^verbatim>\<open>extract_content\<close> returns\<close>

lemma html_extract_content_fetch_fails:
  "requests_get w u = Inl e \<Longrightarrow> html_extract_content w self u n = Inl e"
  by (simp add: html_extract_content_def html_fetch_page_def)

lemma html_extract_content_ok:
  "requests_get w u = Inr html
     \<Longrightarrow> html_extract_content w self u n =
          Inr ([(''id'', JString (uuid4 w n)),
                (''source'', JString (start_url self)),
                (''url'', JString u),
                (''title'', case soup_find w (BeautifulSoup w html) ''h1'' of
                              None \<Rightarrow> JNull | Some h \<Rightarrow> JString (get_text_strip w h)),
                (''author'', case soup_select_one w (BeautifulSoup w html) ''.author'' of
                               None \<Rightarrow> JNull | Some t \<Rightarrow> JString (get_text_strip w t)),
                (''date'', case soup_find w (BeautifulSoup w html) ''time'' of
                             None \<Rightarrow> JNull
                           | Some t \<Rightarrow> (case tag_get w t ''datetime'' of
                                          None \<Rightarrow> JNull | Some d \<Rightarrow> JString d)),
                (''content'',
                 JString (join [CHR 0x0A, CHR 0x0A]
                            (map (get_text_strip w)
                               (soup_select w (BeautifulSoup w html)
                                  ''article p, .post-content p, .content p''))))],
               Suc n)"
  by (simp add: html_extract_content_def html_fetch_page_def split: option.splits)

text \<open>
  An extraction either raises the same exception whatever the uuid counter, or returns a
  record that starts with the fresh id and is otherwise the same whatever the counter and
  the uuid source.
\<close>

lemma html_extract_content_shape:
  "(\<exists>e. \<forall>g n. html_extract_content (w\<lparr>uuid4 := g\<rparr>) self u n = Inl e) \<or>
   (\<exists>t a d c. \<forall>g n. html_extract_content (w\<lparr>uuid4 := g\<rparr>) self u n =
        Inr ([(''id'', JString (g n)), (''source'', JString (start_url self)),
              (''url'', JString u), (''title'', t), (''author'', a), (''date'', d),
              (''content'', JString c)], Suc n))"
proof (cases "requests_get w u")
  case (Inl e)
  then have "\<forall>g n. html_extract_content (w\<lparr>uuid4 := g\<rparr>) self u n = Inl e"
    by (simp add: html_extract_content_fetch_fails)
  then show ?thesis by blast
next
  case (Inr html)
  have "html_extract_content (w\<lparr>uuid4 := g\<rparr>) self u n =
        Inr ([(''id'', JString (g n)), (''source'', JString (start_url self)),
              (''url'', JString u),
              (''title'', case soup_find w (BeautifulSoup w html) ''h1'' of
                              None \<Rightarrow> JNull | Some h \<Rightarrow> JString (get_text_strip w h)),
              (''author'', case soup_select_one w (BeautifulSoup w html) ''.author'' of
                             None \<Rightarrow> JNull | Some t \<Rightarrow> JString (get_text_strip w t)),
              (''date'', case soup_find w (BeautifulSoup w html) ''time'' of
                             None \<Rightarrow> JNull
                           | Some t \<Rightarrow> (case tag_get w t ''datetime'' of
                                          None \<Rightarrow> JNull | Some d \<Rightarrow> JString d)),
              (''content'',
               JString (join [CHR 0x0A, CHR 0x0A]
                          (map (get_text_strip w)
                             (soup_select w (BeautifulSoup w html)
                                ''article p, .post-content p, .content p''))))],
             Suc n)" for g n
    using html_extract_content_ok[of "w\<lparr>uuid4 := g\<rparr>" u html self n] Inr
    by (simp cong: option.case_cong)
  then show ?thesis by blast
qed

lemma pdf_extract_content_shape:
  "(\<exists>e. \<forall>g n. pdf_extract_content (w\<lparr>uuid4 := g\<rparr>) u n = Inl e) \<or>
   (\<exists>c. \<forall>g n. pdf_extract_content (w\<lparr>uuid4 := g\<rparr>) u n =
        Inr ([(''id'', JString (g n)), (''source'', JString (basename u)),
              (''content'', JString c)], Suc n))"
  unfolding pdf_extract_content_def
  by (cases "extract_text w u") auto


lemma html_extract_content_shape1:
  "(\<exists>e. \<forall>n. html_extract_content w self u n = Inl e) \<or>
   (\<exists>t a d c. \<forall>n. html_extract_content w self u n =
        Inr ([(''id'', JString (uuid4 w n)), (''source'', JString (start_url self)),
              (''url'', JString u), (''title'', t), (''author'', a), (''date'', d),
              (''content'', JString c)], Suc n))"
proof -
  have "html_extract_content (w\<lparr>uuid4 := uuid4 w\<rparr>) self u n = html_extract_content w self u n"
    for n by simp
  with html_extract_content_shape[of w self u] show ?thesis by metis
qed

lemma pdf_extract_content_shape1:
  "(\<exists>e. \<forall>n. pdf_extract_content w u n = Inl e) \<or>
   (\<exists>c. \<forall>n. pdf_extract_content w u n =
        Inr ([(''id'', JString (uuid4 w n)), (''source'', JString (basename u)),
              (''content'', JString c)], Suc n))"
  unfolding pdf_extract_content_def
  by (cases "extract_text w u") auto

lemma html_record_fields:
  assumes "html_extract_content w self u k = Inr (r, k')"
  shows "map fst r = [''id'', ''source'', ''url'', ''title'', ''author'', ''date'', ''content''] \<and>
         map_of r ''id'' = Some (JString (uuid4 w k)) \<and>
         map_of r ''source'' = Some (JString (start_url self)) \<and>
         map_of r ''url'' = Some (JString u) \<and>
         (\<exists>c. map_of r ''content'' = Some (JString c)) \<and> k' = Suc k"
  using html_extract_content_shape1[of w self u] assms by auto

lemma pdf_record_fields:
  assumes "pdf_extract_content w u k = Inr (r, k')"
  shows "map fst r = [''id'', ''source'', ''content''] \<and>
         map_of r ''id'' = Some (JString (uuid4 w k)) \<and>
         map_of r ''source'' = Some (JString (basename u)) \<and>
         (\<exists>c. map_of r ''content'' = Some (JString c)) \<and> k' = Suc k"
  using pdf_extract_content_shape1[of w u] assms by auto

section \<open>The loops of \<^verbatim>\<open>run\<close> and \<^verbatim>\<open>parse_items\<close>\<close>

lemma run_items_prefix:
  assumes shape: "\<And>i. (\<exists>e. \<forall>n. ex i n = Inl e) \<or> (\<exists>f. \<forall>n. ex i n = Inr (f n, Suc n))"
  shows "\<exists>rs. run_items ex items n =
           (rs, (case dropWhile (\<lambda>i. item_error ex i = None) items of
                   [] \<Rightarrow> None | bad # rest \<Rightarrow> item_error ex bad),
            n + length rs) \<and>
         list_all2 (\<lambda>r i. \<exists>k. ex i k = Inr (r, Suc k)) rs
           (takeWhile (\<lambda>i. item_error ex i = None) items)"
proof (induction items arbitrary: n)
  case Nil
  show ?case by simp
next
  case (Cons i items)
  from shape[of i] show ?case
  proof
    assume "\<exists>e. \<forall>n. ex i n = Inl e"
    then obtain e where "\<And>n. ex i n = Inl e" by blast
    then show ?thesis by (simp add: item_error_def)
  next
    assume "\<exists>f. \<forall>n. ex i n = Inr (f n, Suc n)"
    then obtain f where f: "\<And>n. ex i n = Inr (f n, Suc n)" by blast
    from Cons.IH[of "Suc n"] obtain rs where
      rs: "run_items ex items (Suc n) =
           (rs, (case dropWhile (\<lambda>i. item_error ex i = None) items of
                   [] \<Rightarrow> None | bad # rest \<Rightarrow> item_error ex bad),
            Suc n + length rs)"
      "list_all2 (\<lambda>r i. \<exists>k. ex i k = Inr (r, Suc k)) rs
           (takeWhile (\<lambda>i. item_error ex i = None) items)" by blast
    have ok: "item_error ex i = None" by (simp add: item_error_def f)
    have "\<exists>k. ex i k = Inr (f n, Suc k)" using f by blast
    with rs ok show ?thesis by (simp add: f)
  qed
qed

lemma run_items_from_extract:
  "run_items ex items n = (rs, e, n') \<Longrightarrow> r \<in> set rs
     \<Longrightarrow> \<exists>i \<in> set items. \<exists>k k'. ex i k = Inr (r, k')"
proof (induction items arbitrary: n rs e n')
  case Nil
  then show ?case by simp
next
  case (Cons i items)
  show ?case
  proof (cases "ex i n")
    case (Inl e')
    with Cons.prems show ?thesis by simp
  next
    case (Inr p)
    obtain r0 n0 where p: "p = (r0, n0)" by (cases p)
    obtain rs0 e0 m0 where rest: "run_items ex items n0 = (rs0, e0, m0)"
      by (cases "run_items ex items n0")
    with Cons.prems Inr p have "rs = r0 # rs0" by simp
    with Cons.prems(2) have "r = r0 \<or> r \<in> set rs0" by simp
    then show ?thesis
    proof
      assume "r = r0"
      with Inr p show ?thesis by auto
    next
      assume "r \<in> set rs0"
      from Cons.IH[OF rest this] show ?thesis by auto
    qed
  qed
qed

lemma run_html_unfold:
  "run (html_scraper w self) n =
     (case requests_get w (start_url self) of
        Inl e \<Rightarrow> ([], Some e, n)
      | Inr page \<Rightarrow>
          (case html_parse_items w self page of
             Inl e \<Rightarrow> ([], Some e, n)
           | Inr items \<Rightarrow> run_items (html_extract_content w self) items n))"
  by (simp add: run_def html_scraper_def html_list_pages_def html_fetch_page_def
        split: sum.splits option.splits prod.splits)

lemma run_pdf_unfold:
  "run (pdf_scraper w self) n =
     (case open_rb w (pdf_path self) of
        Inl e \<Rightarrow> ([], Some e, n)
      | Inr content \<Rightarrow> run_items (pdf_extract_content w) [pdf_path self] n)"
  by (simp add: run_def pdf_scraper_def pdf_list_pages_def pdf_fetch_page_def pdf_parse_items_def
        split: sum.splits option.splits prod.splits)

lemma html_shape_run_items:
  "(\<exists>e. \<forall>n. html_extract_content w self i n = Inl e) \<or>
   (\<exists>f. \<forall>n. html_extract_content w self i n = Inr (f n, Suc n))"
proof -
  from html_extract_content_shape1[of w self i] show ?thesis
  proof
    assume "\<exists>e. \<forall>n. html_extract_content w self i n = Inl e"
    then show ?thesis by blast
  next
    assume "\<exists>t a d c. \<forall>n. html_extract_content w self i n =
        Inr ([(''id'', JString (uuid4 w n)), (''source'', JString (start_url self)),
              (''url'', JString i), (''title'', t), (''author'', a), (''date'', d),
              (''content'', JString c)], Suc n)"
    then obtain t a d c where "\<forall>n. html_extract_content w self i n =
        Inr ([(''id'', JString (uuid4 w n)), (''source'', JString (start_url self)),
              (''url'', JString i), (''title'', t), (''author'', a), (''date'', d),
              (''content'', JString c)], Suc n)" by blast
    moreover define f where "f = (\<lambda>n. [(''id'', JString (uuid4 w n)),
              (''source'', JString (start_url self)),
              (''url'', JString i), (''title'', t), (''author'', a), (''date'', d),
              (''content'', JString c)])"
    ultimately have "\<forall>n. html_extract_content w self i n = Inr (f n, Suc n)" by simp
    then show ?thesis by blast
  qed
qed

lemma parse_items_loop_eq:
  "parse_items_loop w self tags items =
     items @ map (\<lambda>h. if startswith h ''http'' then h else urljoin w (start_url self) h)
               (filter (\<lambda>h. h \<noteq> []) (List.map_filter (\<lambda>a. tag_get w a ''href'') tags))"
  by (induction tags arbitrary: items) (auto split: option.splits)




section \<open>Paths\<close>

lemma basename_strips_directory:
  assumes "CHR ''/'' \<notin> set name"
  shows "basename (dir @ CHR ''/'' # name) = name"
proof -
  have "takeWhile (\<lambda>c. c \<noteq> CHR ''/'') (rev name @ CHR ''/'' # rev dir) =
          rev name @ takeWhile (\<lambda>c. c \<noteq> CHR ''/'') (CHR ''/'' # rev dir)"
    by (rule takeWhile_append2) (use assms in auto)
  then show ?thesis by (simp add: basename_def)
qed

section \<open>The small world, evaluated\<close>

lemmas demo_defs =
  demo_world_def demo_get_def demo_select_def demo_select_one_def demo_selector_error_def
  demo_find_def
  demo_urljoin_def demo_extract_text_def demo_open_def demo_uuid4_def hex_digit_def
  demo_blog_def demo_links_def demo_dsa_def demo_post1_def demo_post2_def
  blog_scraper_def links_scraper_def

lemma demo_fetch:
  "requests_get demo_world ''https://example.org/blog'' = Inr demo_blog"
  "requests_get demo_world ''https://example.org/links'' = Inr demo_links"
  "requests_get demo_world ''https://nilmamano.com/blog/category/dsa'' = Inr demo_dsa"
  "requests_get demo_world ''https://example.org/post/1'' = Inr demo_post1"
  "requests_get demo_world ''https://example.org/post/2'' = Inr demo_post2"
  "requests_get demo_world ''https://example.org/gone'' =
     Inl (RequestException ''https://example.org/gone'')"
  "requests_get demo_world ''https://interviewing.io/blog'' =
     Inl (RequestException ''https://interviewing.io/blog'')"
  by (simp_all add: demo_world_def demo_get_def)

lemma demo_parse_blog:
  "html_parse_items demo_world blog_scraper demo_blog =
     Inr [''https://example.org/post/1'', ''https://example.org/post/2'',
          ''https://example.org/post/1'']"
  by (simp add: html_parse_items_def demo_defs)

lemma demo_parse_links:
  "html_parse_items demo_world links_scraper demo_links =
     Inr [''https://example.org/gone'', ''https://example.org/post/2'']"
  by (simp add: html_parse_items_def demo_defs)

lemma demo_extract_post1:
  "html_extract_content demo_world self ''https://example.org/post/1'' n =
     Inr ([(''id'', JString (demo_uuid4 n)),
           (''source'', JString (start_url self)),
           (''url'', JString ''https://example.org/post/1''),
           (''title'', JString ''First post''),
           (''author'', JString ''Ann''),
           (''date'', JString ''2024-01-02''),
           (''content'', JString (''Hello'' @ [CHR 0x0A, CHR 0x0A] @ ''World''))], Suc n)"
  by (simp add: html_extract_content_def html_fetch_page_def demo_world_def demo_get_def
        demo_select_def demo_select_one_def demo_find_def demo_post1_def demo_post2_def)

lemma demo_extract_post2:
  "html_extract_content demo_world self ''https://example.org/post/2'' n =
     Inr ([(''id'', JString (demo_uuid4 n)),
           (''source'', JString (start_url self)),
           (''url'', JString ''https://example.org/post/2''),
           (''title'', JNull),
           (''author'', JNull),
           (''date'', JNull),
           (''content'', JString ''Only text'')], Suc n)"
  by (simp add: html_extract_content_def html_fetch_page_def demo_world_def demo_get_def
        demo_select_def demo_select_one_def demo_find_def demo_post1_def demo_post2_def)

lemma demo_extract_gone:
  "html_extract_content demo_world self ''https://example.org/gone'' n =
     Inl (RequestException ''https://example.org/gone'')"
  by (simp add: html_extract_content_fetch_fails demo_fetch)

lemma demo_item_errors:
  "item_error (html_extract_content demo_world self) ''https://example.org/gone'' =
     Some (RequestException ''https://example.org/gone'')"
  "item_error (html_extract_content demo_world self) ''https://example.org/post/1'' = None"
  "item_error (html_extract_content demo_world self) ''https://example.org/post/2'' = None"
  by (simp_all add: item_error_def demo_extract_gone demo_extract_post1 demo_extract_post2)

lemma demo_start_urls:
  "start_url blog_scraper = ''https://example.org/blog''"
  "start_url links_scraper = ''https://example.org/links''"
  by (simp_all add: blog_scraper_def links_scraper_def)

lemma demo_run_blog:
  "run (html_scraper demo_world blog_scraper) n =
     ([[(''id'', JString (demo_uuid4 n)),
        (''source'', JString ''https://example.org/blog''),
        (''url'', JString ''https://example.org/post/1''),
        (''title'', JString ''First post''),
        (''author'', JString ''Ann''),
        (''date'', JString ''2024-01-02''),
        (''content'', JString (''Hello'' @ [CHR 0x0A, CHR 0x0A] @ ''World''))],
       [(''id'', JString (demo_uuid4 (Suc n))),
        (''source'', JString ''https://example.org/blog''),
        (''url'', JString ''https://example.org/post/2''),
        (''title'', JNull),
        (''author'', JNull),
        (''date'', JNull),
        (''content'', JString ''Only text'')],
       [(''id'', JString (demo_uuid4 (Suc (Suc n)))),
        (''source'', JString ''https://example.org/blog''),
        (''url'', JString ''https://example.org/post/1''),
        (''title'', JString ''First post''),
        (''author'', JString ''Ann''),
        (''date'', JString ''2024-01-02''),
        (''content'', JString (''Hello'' @ [CHR 0x0A, CHR 0x0A] @ ''World''))]],
      None, Suc (Suc (Suc n)))"
  by (simp add: run_html_unfold demo_start_urls demo_fetch demo_parse_blog
        demo_extract_post1 demo_extract_post2)

lemma demo_run_links:
  "run (html_scraper demo_world links_scraper) n =
     ([], Some (RequestException ''https://example.org/gone''), n)"
  by (simp add: run_html_unfold demo_start_urls demo_fetch demo_parse_links demo_extract_gone)

lemma demo_run_bad_selector:
  "run (html_scraper demo_world
          \<lparr>start_url = ''https://example.org/blog'', list_selector = ''article['',
           link_selector = ''a''\<rparr>) n =
     ([], Some (SelectorSyntaxError ''article[ a''), n)"
  by (simp add: run_html_unfold html_parse_items_def demo_world_def demo_get_def
        demo_selector_error_def)

lemma demo_run_pdf:
  "run (pdf_scraper demo_world \<lparr>pdf_path = ''data/pdfs/a.pdf''\<rparr>) n =
     ([[(''id'', JString (demo_uuid4 n)),
        (''source'', JString ''a.pdf''),
        (''content'', JString ''Alpha'')]], None, Suc n)"
  by (simp add: run_pdf_unfold pdf_extract_content_def basename_def demo_world_def
        demo_open_def demo_extract_text_def)

section \<open>Failures inside a run\<close>

lemma run_html_prefix:
  assumes listing: "requests_get w (start_url self) = Inr page"
    and parsed: "html_parse_items w self page = Inr items"
  shows "\<exists>rs. run (html_scraper w self) n =
           (rs,
            (case dropWhile (\<lambda>u. item_error (html_extract_content w self) u = None) items of
               [] \<Rightarrow> None
             | bad # rest \<Rightarrow> item_error (html_extract_content w self) bad),
            n + length rs) \<and>
         map (\<lambda>r. map_of r ''url'') rs =
           map (\<lambda>u. Some (JString u))
             (takeWhile (\<lambda>u. item_error (html_extract_content w self) u = None) items)"
proof -
  let ?ex = "html_extract_content w self"
  let ?ok = "\<lambda>u. item_error ?ex u = None"
  from run_items_prefix[of ?ex items n, OF html_shape_run_items]
  obtain rs where run: "run_items ?ex items n =
           (rs, (case dropWhile ?ok items of [] \<Rightarrow> None | bad # rest \<Rightarrow> item_error ?ex bad),
            n + length rs)"
    and each: "list_all2 (\<lambda>r i. \<exists>k. ?ex i k = Inr (r, Suc k)) rs (takeWhile ?ok items)"
    by blast
  have "list_all2 (\<lambda>r u. map_of r ''url'' = Some (JString u)) rs (takeWhile ?ok items)"
    using each by (rule list_all2_mono) (use html_record_fields in blast)
  then have "map (\<lambda>r. map_of r ''url'') rs = map (\<lambda>u. Some (JString u)) (takeWhile ?ok items)"
    by (induction rule: list_all2_induct) simp_all
  with run listing parsed show ?thesis by (simp add: run_html_unfold)
qed

text \<open>
  Claim C1, as amended. When the listing page of an HTML source is fetched and parsed, the
  run yields one record for each item before the first item whose extraction raises, in
  order, and then ends with that item's exception: it yields nothing for the failed item
  nor for any item after it. When no item fails it yields one record per discovered item
  and ends normally.
\<close>

theorem run_stops_at_first_failed_item:
  assumes "requests_get w (start_url self) = Inr page"
    and "html_parse_items w self page = Inr items"
  shows "\<exists>rs. run (html_scraper w self) n =
           (rs,
            (case dropWhile (\<lambda>u. item_error (html_extract_content w self) u = None) items of
               [] \<Rightarrow> None
             | bad # rest \<Rightarrow> item_error (html_extract_content w self) bad),
            n + length rs) \<and>
         map (\<lambda>r. map_of r ''url'') rs =
           map (\<lambda>u. Some (JString u))
             (takeWhile (\<lambda>u. item_error (html_extract_content w self) u = None) items)"
  using assms by (rule run_html_prefix)

text \<open>
  The listing \<^verbatim>\<open>https://example.org/links\<close>: its first link answers 404, so the run ends there.
\<close>

theorem run_stops_at_first_failed_item_witness:
  "\<exists>rs. run (html_scraper demo_world links_scraper) 0 =
          (rs, Some (RequestException ''https://example.org/gone''), length rs) \<and>
        map (\<lambda>r. map_of r ''url'') rs = []"
proof -
  have listing: "requests_get demo_world (start_url links_scraper) = Inr demo_links"
    by (simp add: demo_start_urls demo_fetch)
  from run_stops_at_first_failed_item[OF listing demo_parse_links, of 0]
  show ?thesis by (simp add: demo_item_errors)
qed

text \<open>
  Claim C1 as stated fails on that listing: two items are discovered, one fails (the second
  one would succeed), and the run emits no record, not \<open>2 - 1\<close>.
\<close>

theorem item_failure_aborts_run_counterexample:
  "requests_get demo_world (start_url links_scraper) = Inr demo_links \<and>
   html_parse_items demo_world links_scraper demo_links =
     Inr [''https://example.org/gone'', ''https://example.org/post/2''] \<and>
   item_error (html_extract_content demo_world links_scraper) ''https://example.org/gone'' =
     Some (RequestException ''https://example.org/gone'') \<and>
   item_error (html_extract_content demo_world links_scraper) ''https://example.org/post/2'' =
     None \<and>
   run (html_scraper demo_world links_scraper) 0 =
     ([], Some (RequestException ''https://example.org/gone''), 0) \<and>
   length (fst (run (html_scraper demo_world links_scraper) 0)) \<noteq>
     length [''https://example.org/gone'', ''https://example.org/post/2''] -
     length [''https://example.org/gone'']"
  by (simp add: demo_start_urls demo_fetch demo_parse_links demo_item_errors demo_run_links)

section \<open>The keys of a record\<close>

text \<open>
  Claim C3, as amended. Every record of an HTML run has exactly the keys \<^verbatim>\<open>id\<close>,
  \<^verbatim>\<open>source\<close>, \<^verbatim>\<open>url\<close>, \<^verbatim>\<open>title\<close>, \<^verbatim>\<open>author\<close>, \<^verbatim>\<open>date\<close>, \<^verbatim>\<open>content\<close>, in this order,
  with \<^verbatim>\<open>url\<close> and \<^verbatim>\<open>content\<close> strings (the other three a string or null). Every record of a
  PDF run has exactly the keys \<^verbatim>\<open>id\<close>, \<^verbatim>\<open>source\<close>, \<^verbatim>\<open>content\<close>, with \<^verbatim>\<open>content\<close> a string.
\<close>

theorem record_keys_by_source_kind:
  "(\<forall>r \<in> set (fst (run (html_scraper w self) n)).
      map fst r = [''id'', ''source'', ''url'', ''title'', ''author'', ''date'', ''content''] \<and>
      (\<exists>u. map_of r ''url'' = Some (JString u)) \<and>
      (\<exists>c. map_of r ''content'' = Some (JString c))) \<and>
   (\<forall>r \<in> set (fst (run (pdf_scraper w pdf) n)).
      map fst r = [''id'', ''source'', ''content''] \<and>
      (\<exists>c. map_of r ''content'' = Some (JString c)))"
proof (rule conjI; rule ballI)
  fix r assume r: "r \<in> set (fst (run (html_scraper w self) n))"
  obtain rs e n' where run: "run (html_scraper w self) n = (rs, e, n')"
    by (cases "run (html_scraper w self) n")
  with r have "r \<in> set rs" by simp
  moreover from run r obtain items where "run_items (html_extract_content w self) items n = (rs, e, n')"
    by (auto simp: run_html_unfold split: sum.splits)
  ultimately obtain u k k' where "html_extract_content w self u k = Inr (r, k')"
    using run_items_from_extract by blast
  from html_record_fields[OF this]
  show "map fst r = [''id'', ''source'', ''url'', ''title'', ''author'', ''date'', ''content''] \<and>
      (\<exists>u. map_of r ''url'' = Some (JString u)) \<and>
      (\<exists>c. map_of r ''content'' = Some (JString c))" by blast
next
  fix r assume r: "r \<in> set (fst (run (pdf_scraper w pdf) n))"
  obtain rs e n' where run: "run (pdf_scraper w pdf) n = (rs, e, n')"
    by (cases "run (pdf_scraper w pdf) n")
  with r have "r \<in> set rs" by simp
  moreover from run r have "run_items (pdf_extract_content w) [pdf_path pdf] n = (rs, e, n')"
    by (auto simp: run_pdf_unfold split: sum.splits)
  ultimately obtain u k k' where "pdf_extract_content w u k = Inr (r, k')"
    using run_items_from_extract by blast
  from pdf_record_fields[OF this]
  show "map fst r = [''id'', ''source'', ''content''] \<and>
      (\<exists>c. map_of r ''content'' = Some (JString c))" by blast
qed

text \<open>
  The first record of the blog run and the record of \<^verbatim>\<open>a.pdf\<close>.
\<close>

theorem record_keys_by_source_kind_witness:
  "map fst (hd (fst (run (html_scraper demo_world blog_scraper) 0))) =
     [''id'', ''source'', ''url'', ''title'', ''author'', ''date'', ''content''] \<and>
   map fst (hd (fst (run (pdf_scraper demo_world \<lparr>pdf_path = ''data/pdfs/a.pdf''\<rparr>) 0))) =
     [''id'', ''source'', ''content'']"
  using record_keys_by_source_kind[of demo_world blog_scraper 0
          "\<lparr>pdf_path = ''data/pdfs/a.pdf''\<rparr>"]
  by (simp add: demo_run_blog demo_run_pdf)

text \<open>
  Claim C3 as stated fails for a PDF record: the keys \<^verbatim>\<open>url\<close> and \<^verbatim>\<open>title\<close> are missing,
  not null.
\<close>

theorem pdf_record_lacks_optional_keys_counterexample:
  "run (pdf_scraper demo_world \<lparr>pdf_path = ''data/pdfs/a.pdf''\<rparr>) 0 =
     ([[(''id'', JString ''00000000-0000-4000-8000-000000000000''),
        (''source'', JString ''a.pdf''),
        (''content'', JString ''Alpha'')]], None, 1) \<and>
   map_of [(''id'', JString ''00000000-0000-4000-8000-000000000000''),
           (''source'', JString ''a.pdf''),
           (''content'', JString ''Alpha'')] ''url'' = None \<and>
   ''title'' \<notin> fst ` set (hd (fst (run (pdf_scraper demo_world
                                          \<lparr>pdf_path = ''data/pdfs/a.pdf''\<rparr>) 0)))"
  by (simp add: demo_run_pdf demo_uuid4_def hex_digit_def)

section \<open>The records of an HTML run\<close>




section \<open>Enumerating the items of a listing page\<close>









section \<open>The fields of an HTML record\<close>



section \<open>The record of a PDF run\<close>

text \<open>
  Claim C6, as amended. When the file can be read and pdfminer extracts its text, the PDF
  run yields exactly one record, whose \<^verbatim>\<open>content\<close> is the extracted text and whose
  \<^verbatim>\<open>source\<close> is the base name of the path: the name alone when the path is a directory,
  a slash and a name without slash. The command prints that record.
\<close>

theorem run_pdf_source_one_record:
  assumes readable: "open_rb w path = Inr bytes"
    and extracted: "extract_text w path = Inr text"
  shows "run (pdf_scraper w \<lparr>pdf_path = path\<rparr>) n =
           ([[(''id'', JString (uuid4 w n)),
              (''source'', JString (basename path)),
              (''content'', JString text)]], None, Suc n) \<and>
         scrape_pdf w path n =
           ([json_dumps [(''id'', JString (uuid4 w n)),
                         (''source'', JString (basename path)),
                         (''content'', JString text)]], None, Suc n) \<and>
         (\<forall>dir name. CHR ''/'' \<notin> set name \<longrightarrow> path = dir @ ''/'' @ name \<longrightarrow> basename path = name)"
  using assms
  by (simp add: run_pdf_unfold scrape_pdf_def echo_records_def pdf_extract_content_def
        basename_strips_directory)

text \<open>
  The file \<^verbatim>\<open>data/pdfs/a.pdf\<close>.
\<close>

theorem run_pdf_source_one_record_witness:
  "run (pdf_scraper demo_world \<lparr>pdf_path = ''data/pdfs/a.pdf''\<rparr>) 0 =
     ([[(''id'', JString ''00000000-0000-4000-8000-000000000000''),
        (''source'', JString ''a.pdf''),
        (''content'', JString ''Alpha'')]], None, 1) \<and>
   basename ''data/pdfs/a.pdf'' = ''a.pdf''"
proof -
  have r: "open_rb demo_world ''data/pdfs/a.pdf'' = Inr ''%PDF-1.4''"
    and x: "extract_text demo_world ''data/pdfs/a.pdf'' = Inr ''Alpha''"
    by (simp_all add: demo_world_def demo_open_def demo_extract_text_def)
  have u: "uuid4 demo_world 0 = ''00000000-0000-4000-8000-000000000000''"
    by (simp add: demo_world_def demo_uuid4_def hex_digit_def)
  from run_pdf_source_one_record[OF r x, of 0]
  have run: "run (pdf_scraper demo_world \<lparr>pdf_path = ''data/pdfs/a.pdf''\<rparr>) 0 =
           ([[(''id'', JString (uuid4 demo_world 0)),
              (''source'', JString (basename ''data/pdfs/a.pdf'')),
              (''content'', JString ''Alpha'')]], None, Suc 0)"
    and base: "\<forall>dir name. CHR ''/'' \<notin> set name \<longrightarrow> ''data/pdfs/a.pdf'' = dir @ ''/'' @ name
                 \<longrightarrow> basename ''data/pdfs/a.pdf'' = name"
    by blast+
  from base[rule_format, of "''a.pdf''" "''data/pdfs''"] have b: "basename ''data/pdfs/a.pdf'' = ''a.pdf''"
    by simp
  from run show ?thesis by (simp add: b u)
qed

text \<open>
  Claim C6 as stated fails on \<^verbatim>\<open>data/pdfs/b.PDF\<close>, a readable file that is not a PDF inside:
  pdfminer raises, and the run emits no record.
\<close>

theorem unparsable_pdf_counterexample:
  "open_rb demo_world ''data/pdfs/b.PDF'' = Inr ''plain text'' \<and>
   run (pdf_scraper demo_world \<lparr>pdf_path = ''data/pdfs/b.PDF''\<rparr>) 0 =
     ([], Some (PDFSyntaxError ''data/pdfs/b.PDF''), 0) \<and>
   scrape_pdf demo_world ''data/pdfs/b.PDF'' 0 =
     ([], Some (PDFSyntaxError ''data/pdfs/b.PDF''), 0)"
  by (simp add: run_pdf_unfold scrape_pdf_def echo_records_def pdf_extract_content_def
        demo_world_def demo_open_def demo_extract_text_def)

section \<open>Two runs of one source\<close>

lemma run_items_two_sources:
  assumes shape: "\<And>i. (\<exists>e. \<forall>g n. E g i n = Inl e) \<or>
                      (\<exists>body. \<forall>g n. E g i n = Inr ((''id'', JString (g n)) # body, Suc n))"
  shows "\<exists>rs rs' e.
           run_items (E f) items n = (rs, e, n + length rs) \<and>
           run_items (E g) items m = (rs', e, m + length rs) \<and>
           without_ids rs' = without_ids rs \<and>
           ids_of rs = map (\<lambda>k. Some (JString (f (n + k)))) [0..<length rs] \<and>
           ids_of rs' = map (\<lambda>k. Some (JString (g (m + k)))) [0..<length rs]"
proof (induction items arbitrary: n m)
  case Nil
  show ?case by (simp add: without_ids_def ids_of_def)
next
  case (Cons i items)
  from shape[of i] show ?case
  proof
    assume "\<exists>e. \<forall>g n. E g i n = Inl e"
    then obtain e where "\<And>g n. E g i n = Inl e" by blast
    then show ?thesis by (simp add: without_ids_def ids_of_def)
  next
    assume "\<exists>body. \<forall>g n. E g i n = Inr ((''id'', JString (g n)) # body, Suc n)"
    then obtain body where
      body: "\<And>g n. E g i n = Inr ((''id'', JString (g n)) # body, Suc n)" by blast
    from Cons.IH[of "Suc n" "Suc m"] obtain rs rs' e where
      1: "run_items (E f) items (Suc n) = (rs, e, Suc n + length rs)"
      and 2: "run_items (E g) items (Suc m) = (rs', e, Suc m + length rs)"
      and 3: "without_ids rs' = without_ids rs"
      and 4: "ids_of rs = map (\<lambda>k. Some (JString (f (Suc n + k)))) [0..<length rs]"
      and 5: "ids_of rs' = map (\<lambda>k. Some (JString (g (Suc m + k)))) [0..<length rs]"
      by blast
    let ?r = "(''id'', JString (f n)) # body" and ?r' = "(''id'', JString (g m)) # body"
    have a: "run_items (E f) (i # items) n = (?r # rs, e, n + length (?r # rs))"
      using 1 by (simp add: body)
    have b: "run_items (E g) (i # items) m = (?r' # rs', e, m + length (?r # rs))"
      using 2 by (simp add: body)
    have c: "without_ids (?r' # rs') = without_ids (?r # rs)"
      using 3 by (simp add: without_ids_def)
    have d: "ids_of (?r # rs) = map (\<lambda>k. Some (JString (f (n + k)))) [0..<length (?r # rs)]"
      using 4 by (simp add: ids_of_def map_upt_Suc del: upt_Suc)
    have e: "ids_of (?r' # rs') = map (\<lambda>k. Some (JString (g (m + k)))) [0..<length (?r # rs)]"
      using 5 by (simp add: ids_of_def map_upt_Suc del: upt_Suc)
    from a b c d e show ?thesis by blast
  qed
qed

lemma html_parse_items_uuid4:
  "html_parse_items (w\<lparr>uuid4 := g\<rparr>) self page = html_parse_items w self page"
  by (simp add: html_parse_items_def parse_items_loop_eq Let_def split: option.splits)

lemma html_shape_two_sources:
  "(\<exists>e. \<forall>g n. html_extract_content (w\<lparr>uuid4 := g\<rparr>) self i n = Inl e) \<or>
   (\<exists>body. \<forall>g n. html_extract_content (w\<lparr>uuid4 := g\<rparr>) self i n =
             Inr ((''id'', JString (g n)) # body, Suc n))"
  using html_extract_content_shape[of w self i] by blast

lemma pdf_shape_two_sources:
  "(\<exists>e. \<forall>g n. pdf_extract_content (w\<lparr>uuid4 := g\<rparr>) i n = Inl e) \<or>
   (\<exists>body. \<forall>g n. pdf_extract_content (w\<lparr>uuid4 := g\<rparr>) i n =
             Inr ((''id'', JString (g n)) # body, Suc n))"
  using pdf_extract_content_shape[of w i] by blast

lemma ids_differ:
  assumes "ids_of rs = map (\<lambda>k. Some (JString (f (n + k)))) [0..<length rs]"
    and "ids_of rs' = map (\<lambda>k. Some (JString (g (m + k)))) [0..<length rs]"
  shows "(\<forall>k<length rs. g (m + k) \<noteq> f (n + k)) \<longrightarrow> (\<forall>k<length rs. ids_of rs' ! k \<noteq> ids_of rs ! k)"
  using assms by simp

lemma run_html_two_sources:
  "\<exists>rs rs' e.
     run (html_scraper w self) n = (rs, e, n + length rs) \<and>
     run (html_scraper (w\<lparr>uuid4 := g\<rparr>) self) m = (rs', e, m + length rs) \<and>
     without_ids rs' = without_ids rs \<and>
     ids_of rs = map (\<lambda>k. Some (JString (uuid4 w (n + k)))) [0..<length rs] \<and>
     ids_of rs' = map (\<lambda>k. Some (JString (g (m + k)))) [0..<length rs]"
proof (cases "requests_get w (start_url self)")
  case (Inl e)
  then show ?thesis by (simp add: run_html_unfold without_ids_def ids_of_def)
next
  case page: (Inr page)
  show ?thesis
  proof (cases "html_parse_items w self page")
    case (Inl e)
    with page show ?thesis
      by (simp add: run_html_unfold html_parse_items_uuid4 without_ids_def ids_of_def)
  next
    case (Inr items)
    from run_items_two_sources[of "\<lambda>g. html_extract_content (w\<lparr>uuid4 := g\<rparr>) self"
        "uuid4 w" items n g m, OF html_shape_two_sources]
    show ?thesis using page Inr by (simp add: run_html_unfold html_parse_items_uuid4)
  qed
qed

lemma run_pdf_two_sources:
  "\<exists>rs rs' e.
     run (pdf_scraper w pdf) n = (rs, e, n + length rs) \<and>
     run (pdf_scraper (w\<lparr>uuid4 := g\<rparr>) pdf) m = (rs', e, m + length rs) \<and>
     without_ids rs' = without_ids rs \<and>
     ids_of rs = map (\<lambda>k. Some (JString (uuid4 w (n + k)))) [0..<length rs] \<and>
     ids_of rs' = map (\<lambda>k. Some (JString (g (m + k)))) [0..<length rs]"
proof (cases "open_rb w (pdf_path pdf)")
  case (Inl e)
  then show ?thesis by (simp add: run_pdf_unfold without_ids_def ids_of_def)
next
  case (Inr bytes)
  from run_items_two_sources[of "\<lambda>g. pdf_extract_content (w\<lparr>uuid4 := g\<rparr>)"
      "uuid4 w" "[pdf_path pdf]" n g m, OF pdf_shape_two_sources]
  show ?thesis using Inr by (simp add: run_pdf_unfold)
qed

text \<open>
  Claim C8. Take a run of a source (HTML or PDF) and a second run of it in the same world
  with another uuid source \<open>g\<close>, each from any uuid count. Both end the same way and emit
  the same number of records, which agree on every field but \<^verbatim>\<open>id\<close>, in the same order. The
  \<^verbatim>\<open>id\<close> of the \<open>k\<close>-th record is the \<open>k\<close>-th uuid drawn in its run, whatever the record holds;
  so when the second run draws other uuids than the first, every \<^verbatim>\<open>id\<close> differs.
\<close>

theorem reruns_agree_except_ids:
  "(\<exists>rs rs' e.
     run (html_scraper w self) n = (rs, e, n + length rs) \<and>
     run (html_scraper (w\<lparr>uuid4 := g\<rparr>) self) m = (rs', e, m + length rs) \<and>
     without_ids rs' = without_ids rs \<and>
     ids_of rs = map (\<lambda>k. Some (JString (uuid4 w (n + k)))) [0..<length rs] \<and>
     ids_of rs' = map (\<lambda>k. Some (JString (g (m + k)))) [0..<length rs] \<and>
     ((\<forall>k<length rs. g (m + k) \<noteq> uuid4 w (n + k)) \<longrightarrow>
      (\<forall>k<length rs. ids_of rs' ! k \<noteq> ids_of rs ! k))) \<and>
   (\<exists>rs rs' e.
     run (pdf_scraper w pdf) n = (rs, e, n + length rs) \<and>
     run (pdf_scraper (w\<lparr>uuid4 := g\<rparr>) pdf) m = (rs', e, m + length rs) \<and>
     without_ids rs' = without_ids rs \<and>
     ids_of rs = map (\<lambda>k. Some (JString (uuid4 w (n + k)))) [0..<length rs] \<and>
     ids_of rs' = map (\<lambda>k. Some (JString (g (m + k)))) [0..<length rs] \<and>
     ((\<forall>k<length rs. g (m + k) \<noteq> uuid4 w (n + k)) \<longrightarrow>
      (\<forall>k<length rs. ids_of rs' ! k \<noteq> ids_of rs ! k)))"
proof (rule conjI)
  from run_html_two_sources[of w self n g m] obtain rs rs' e where
    *: "run (html_scraper w self) n = (rs, e, n + length rs)"
    "run (html_scraper (w\<lparr>uuid4 := g\<rparr>) self) m = (rs', e, m + length rs)"
    "without_ids rs' = without_ids rs"
    "ids_of rs = map (\<lambda>k. Some (JString (uuid4 w (n + k)))) [0..<length rs]"
    "ids_of rs' = map (\<lambda>k. Some (JString (g (m + k)))) [0..<length rs]"
    by blast
  from ids_differ[OF *(4) *(5)] * show "\<exists>rs rs' e.
     run (html_scraper w self) n = (rs, e, n + length rs) \<and>
     run (html_scraper (w\<lparr>uuid4 := g\<rparr>) self) m = (rs', e, m + length rs) \<and>
     without_ids rs' = without_ids rs \<and>
     ids_of rs = map (\<lambda>k. Some (JString (uuid4 w (n + k)))) [0..<length rs] \<and>
     ids_of rs' = map (\<lambda>k. Some (JString (g (m + k)))) [0..<length rs] \<and>
     ((\<forall>k<length rs. g (m + k) \<noteq> uuid4 w (n + k)) \<longrightarrow>
      (\<forall>k<length rs. ids_of rs' ! k \<noteq> ids_of rs ! k))" by blast
next
  from run_pdf_two_sources[of w pdf n g m] obtain rs rs' e where
    *: "run (pdf_scraper w pdf) n = (rs, e, n + length rs)"
    "run (pdf_scraper (w\<lparr>uuid4 := g\<rparr>) pdf) m = (rs', e, m + length rs)"
    "without_ids rs' = without_ids rs"
    "ids_of rs = map (\<lambda>k. Some (JString (uuid4 w (n + k)))) [0..<length rs]"
    "ids_of rs' = map (\<lambda>k. Some (JString (g (m + k)))) [0..<length rs]"
    by blast
  from ids_differ[OF *(4) *(5)] * show "\<exists>rs rs' e.
     run (pdf_scraper w pdf) n = (rs, e, n + length rs) \<and>
     run (pdf_scraper (w\<lparr>uuid4 := g\<rparr>) pdf) m = (rs', e, m + length rs) \<and>
     without_ids rs' = without_ids rs \<and>
     ids_of rs = map (\<lambda>k. Some (JString (uuid4 w (n + k)))) [0..<length rs] \<and>
     ids_of rs' = map (\<lambda>k. Some (JString (g (m + k)))) [0..<length rs] \<and>
     ((\<forall>k<length rs. g (m + k) \<noteq> uuid4 w (n + k)) \<longrightarrow>
      (\<forall>k<length rs. ids_of rs' ! k \<noteq> ids_of rs ! k))" by blast
qed


text \<open>
  The blog run, twice.
\<close>

theorem reruns_agree_except_ids_witness:
  "\<exists>rs rs'.
     run (html_scraper demo_world blog_scraper) 0 = (rs, None, 3) \<and>
     run (html_scraper (demo_world\<lparr>uuid4 := other_uuid4\<rparr>) blog_scraper) 0 = (rs', None, 3) \<and>
     without_ids rs' = without_ids rs \<and>
     ids_of rs = [Some (JString ''00000000-0000-4000-8000-000000000000''),
                  Some (JString ''00000000-0000-4000-8000-000000000001''),
                  Some (JString ''00000000-0000-4000-8000-000000000002'')] \<and>
     ids_of rs' = [Some (JString ''ffffffff-ffff-4fff-bfff-fffffffffff0''),
                   Some (JString ''ffffffff-ffff-4fff-bfff-fffffffffff1''),
                   Some (JString ''ffffffff-ffff-4fff-bfff-fffffffffff2'')] \<and>
     ids_of rs' ! 0 \<noteq> ids_of rs ! 0 \<and> ids_of rs' ! 1 \<noteq> ids_of rs ! 1 \<and>
     ids_of rs' ! 2 \<noteq> ids_of rs ! 2"
proof -
  from reruns_agree_except_ids[of demo_world blog_scraper 0 other_uuid4 0]
  obtain rs rs' e where
    1: "run (html_scraper demo_world blog_scraper) 0 = (rs, e, 0 + length rs)"
    and 2: "run (html_scraper (demo_world\<lparr>uuid4 := other_uuid4\<rparr>) blog_scraper) 0 =
              (rs', e, 0 + length rs)"
    and 3: "without_ids rs' = without_ids rs"
    and 4: "ids_of rs = map (\<lambda>k. Some (JString (uuid4 demo_world (0 + k)))) [0..<length rs]"
    and 5: "ids_of rs' = map (\<lambda>k. Some (JString (other_uuid4 (0 + k)))) [0..<length rs]"
    and 6: "(\<forall>k<length rs. other_uuid4 (0 + k) \<noteq> uuid4 demo_world (0 + k)) \<longrightarrow>
            (\<forall>k<length rs. ids_of rs' ! k \<noteq> ids_of rs ! k)"
    by blast
  from 1 have len: "length rs = 3" and e: "e = None" by (simp_all add: demo_run_blog)
  have upt: "[0..<3] = [0, Suc 0, Suc (Suc 0)]" by (simp add: upt_rec)
  have fresh: "\<forall>k<length rs. other_uuid4 (0 + k) \<noteq> uuid4 demo_world (0 + k)"
    by (simp add: other_uuid4_def demo_world_def demo_uuid4_def)
  with 6 have diff: "\<forall>k<length rs. ids_of rs' ! k \<noteq> ids_of rs ! k" by blast
  have d: "ids_of rs' ! 0 \<noteq> ids_of rs ! 0" "ids_of rs' ! 1 \<noteq> ids_of rs ! 1"
    "ids_of rs' ! 2 \<noteq> ids_of rs ! 2"
    using diff len by simp_all
  from 4 have ids: "ids_of rs = [Some (JString ''00000000-0000-4000-8000-000000000000''),
                  Some (JString ''00000000-0000-4000-8000-000000000001''),
                  Some (JString ''00000000-0000-4000-8000-000000000002'')]"
    by (simp add: len upt demo_world_def demo_uuid4_def hex_digit_def)
  from 5 have ids': "ids_of rs' = [Some (JString ''ffffffff-ffff-4fff-bfff-fffffffffff0''),
                   Some (JString ''ffffffff-ffff-4fff-bfff-fffffffffff1''),
                   Some (JString ''ffffffff-ffff-4fff-bfff-fffffffffff2'')]"
    by (simp add: len upt other_uuid4_def hex_digit_def)
  from 1 2 3 ids ids' d len e show ?thesis by simp
qed

section \<open>The whole catalog\<close>

lemma scrape_sources_append:
  "scrape_sources w (before @ rest) n =
     (case scrape_sources w before n of
        (out, Some e, n') \<Rightarrow> (out, Some e, n')
      | (out, None, n') \<Rightarrow>
          (case scrape_sources w rest n' of (out', e, n'') \<Rightarrow> (out @ out', e, n'')))"
proof (induction before arbitrary: n)
  case Nil
  show ?case by (simp split: prod.splits)
next
  case (Cons src before)
  show ?case
    by (simp add: Cons.IH split: prod.splits option.splits)
qed

lemma run_html_listing_fails:
  assumes "requests_get w (start_url self) = Inl e \<or>
           (\<exists>page. requests_get w (start_url self) = Inr page \<and>
                   html_parse_items w self page = Inl e)"
  shows "run (html_scraper w self) n = ([], Some e, n)"
  using assms by (auto simp: run_html_unfold)

lemma scrape_sources_listing_fails:
  assumes "requests_get w (src_start_url src) = Inl e \<or>
           (\<exists>page. requests_get w (src_start_url src) = Inr page \<and>
                   html_parse_items w
                     \<lparr>start_url = src_start_url src, list_selector = src_list_sel src,
                      link_selector = src_link_sel src\<rparr> page = Inl e)"
  shows "scrape_sources w (src # rest) n = ([html_marker src], Some e, n)"
proof -
  let ?self = "\<lparr>start_url = src_start_url src, list_selector = src_list_sel src,
                link_selector = src_link_sel src\<rparr>"
  have "run (html_scraper w ?self) n = ([], Some e, n)"
    by (rule run_html_listing_fails) (use assms in simp)
  then show ?thesis by (simp add: echo_records_def)
qed

text \<open>
  Claim C2, as amended. When the sources before \<open>src\<close> in the catalog ran to their end and the
  listing page of \<open>src\<close> cannot be fetched or enumerated, the catalog command ends with that
  exception: its output is the output of the earlier sources and the progress marker of
  \<open>src\<close>, and neither the remaining sources nor the PDF files are run.
\<close>

theorem scrape_all_stops_at_failed_listing:
  assumes catalog: "PREDEFINED_SOURCES = before @ src # rest"
    and earlier: "scrape_sources w before n = (out, None, n')"
    and failure:
      "requests_get w (src_start_url src) = Inl e \<or>
       (\<exists>page. requests_get w (src_start_url src) = Inr page \<and>
               html_parse_items w
                 \<lparr>start_url = src_start_url src, list_selector = src_list_sel src,
                  link_selector = src_link_sel src\<rparr> page = Inl e)"
  shows "scrape_all w n = (out @ [html_marker src], Some e, n')"
proof -
  have "scrape_sources w (src # rest) n' = ([html_marker src], Some e, n')"
    using failure by (rule scrape_sources_listing_fails)
  then have "scrape_sources w (before @ src # rest) n = (out @ [html_marker src], Some e, n')"
    by (simp add: scrape_sources_append earlier del: scrape_sources.simps)
  then show ?thesis by (simp add: scrape_all_def catalog)
qed

lemma demo_first_source:
  "PREDEFINED_SOURCES = [] @ hd PREDEFINED_SOURCES # tl PREDEFINED_SOURCES"
  by (simp add: PREDEFINED_SOURCES_def)

lemma first_source:
  "src_start_url (hd PREDEFINED_SOURCES) = ''https://interviewing.io/blog''"
  "html_marker (hd PREDEFINED_SOURCES) =
     ''--- SCRAPING interviewing_blog (https://interviewing.io/blog) ---''"
  by (simp_all add: PREDEFINED_SOURCES_def html_marker_def)

text \<open>
  In the small world the first catalog source is unreachable.
\<close>

theorem scrape_all_stops_at_failed_listing_witness:
  "scrape_all demo_world 0 =
     ([''--- SCRAPING interviewing_blog (https://interviewing.io/blog) ---''],
      Some (RequestException ''https://interviewing.io/blog''), 0)"
proof -
  have earlier: "scrape_sources demo_world [] 0 = ([], None, 0)" by simp
  have failure:
    "requests_get demo_world (src_start_url (hd PREDEFINED_SOURCES)) =
       Inl (RequestException ''https://interviewing.io/blog'') \<or>
     (\<exists>page. requests_get demo_world (src_start_url (hd PREDEFINED_SOURCES)) = Inr page \<and>
             html_parse_items demo_world
               \<lparr>start_url = src_start_url (hd PREDEFINED_SOURCES),
                list_selector = src_list_sel (hd PREDEFINED_SOURCES),
                link_selector = src_link_sel (hd PREDEFINED_SOURCES)\<rparr> page =
             Inl (RequestException ''https://interviewing.io/blog''))"
    by (simp add: first_source demo_fetch)
  from scrape_all_stops_at_failed_listing[OF demo_first_source earlier failure]
  show ?thesis by (simp add: first_source)
qed

lemma demo_parse_dsa:
  "html_parse_items demo_world
     \<lparr>start_url = ''https://nilmamano.com/blog/category/dsa'', list_selector = ''article'',
      link_selector = ''a''\<rparr> demo_dsa = Inr [''https://example.org/post/2'']"
  by (simp add: html_parse_items_def demo_defs)

lemma demo_scrape_dsa:
  "scrape_html demo_world ''https://nilmamano.com/blog/category/dsa'' ''article'' ''a'' 0 =
     ([json_dumps [(''id'', JString (demo_uuid4 0)),
                   (''source'', JString ''https://nilmamano.com/blog/category/dsa''),
                   (''url'', JString ''https://example.org/post/2''),
                   (''title'', JNull),
                   (''author'', JNull),
                   (''date'', JNull),
                   (''content'', JString ''Only text'')]], None, 1)"
  by (simp add: scrape_html_def echo_records_def run_html_unfold demo_fetch
        demo_parse_dsa demo_extract_post2)

lemma demo_scrape_pdf:
  "scrape_pdf demo_world ''data/pdfs/a.pdf'' 0 =
     ([json_dumps [(''id'', JString (demo_uuid4 0)),
                   (''source'', JString ''a.pdf''),
                   (''content'', JString ''Alpha'')]], None, 1)"
  by (simp add: scrape_pdf_def echo_records_def demo_run_pdf)

text \<open>
  Claim C2 as stated fails there: the last catalog source and the file \<^verbatim>\<open>a.pdf\<close> each emit a
  record when run alone, and the catalog command emits neither.
\<close>

theorem failed_listing_aborts_catalog_counterexample:
  "requests_get demo_world ''https://interviewing.io/blog'' =
     Inl (RequestException ''https://interviewing.io/blog'') \<and>
   scrape_all demo_world 0 =
     ([''--- SCRAPING interviewing_blog (https://interviewing.io/blog) ---''],
      Some (RequestException ''https://interviewing.io/blog''), 0) \<and>
   length (fst (scrape_html demo_world ''https://nilmamano.com/blog/category/dsa''
                  ''article'' ''a'' 0)) = 1 \<and>
   hd (fst (scrape_html demo_world ''https://nilmamano.com/blog/category/dsa''
              ''article'' ''a'' 0)) \<notin> set (fst (scrape_all demo_world 0)) \<and>
   length (fst (scrape_pdf demo_world ''data/pdfs/a.pdf'' 0)) = 1 \<and>
   hd (fst (scrape_pdf demo_world ''data/pdfs/a.pdf'' 0)) \<notin> set (fst (scrape_all demo_world 0))"
proof -
  have all: "scrape_all demo_world 0 =
     ([''--- SCRAPING interviewing_blog (https://interviewing.io/blog) ---''],
      Some (RequestException ''https://interviewing.io/blog''), 0)"
    by (simp add: scrape_all_def PREDEFINED_SOURCES_def echo_records_def
          run_html_listing_fails demo_fetch html_marker_def)
  show ?thesis
    by (simp add: all demo_fetch demo_scrape_dsa demo_scrape_pdf json_dumps_def)
qed

section \<open>What the catalog command writes\<close>





text \<open>The PDF folder of the small world: names sorted, \<^verbatim>\<open>notes.txt\<close> skipped, \<^verbatim>\<open>b.PDF\<close> fatal.\<close>

lemma demo_pdf_folder:
  "scrape_pdf_folder demo_world 0 =
     ([''--- SCRAPING PDF a.pdf ---'',
       json_dumps [(''id'', JString (demo_uuid4 0)),
                   (''source'', JString ''a.pdf''),
                   (''content'', JString ''Alpha'')],
       ''--- SCRAPING PDF b.PDF ---''],
      Some (PDFSyntaxError ''data/pdfs/b.PDF''), 1)"
proof -
  have low: "lower ''a.pdf'' = ''a.pdf''" "lower ''b.PDF'' = ''b.pdf''"
    "lower ''notes.txt'' = ''notes.txt''"
    by code_simp+
  show ?thesis
    by (simp add: scrape_pdf_folder_def PDF_FOLDER_def demo_world_def endswith_def low
        path_join_def pdf_marker_def echo_records_def run_pdf_unfold
        pdf_extract_content_def basename_def demo_open_def demo_extract_text_def)
qed

end
